theory Spec2Isabelle
  imports Main
begin

section \<open>Correlative counters (table \<open>correlativos\<close>)\<close>

text \<open>
  The table \<open>correlativos(anio PRIMARY KEY, numero)\<close> is a finite map from a year to the
  last number issued for it. Python exceptions are values of \<open>error\<close>.
\<close>

datatype error = ValueError | IntegrityError | AttributeError | TypeError | RuntimeError

type_synonym correlativos = "int \<rightharpoonup> int"

text \<open>
  \<open>get_next_correlativo\<close>: the year is checked against 2000..2100 first; then the row of
  the year is read, inserted with 1 when absent and incremented otherwise. The result is
  the number handed out together with the table after the commit.
\<close>

definition get_next_correlativo :: "int \<Rightarrow> correlativos \<Rightarrow> error + (int \<times> correlativos)" where
  "get_next_correlativo anio tbl =
     (if \<not> (2000 \<le> anio \<and> anio \<le> 2100) then Inl ValueError
      else (case tbl anio of
              None \<Rightarrow> Inr (1, tbl(anio \<mapsto> 1))
            | Some n \<Rightarrow> Inr (n + 1, tbl(anio \<mapsto> n + 1))))"

text \<open>Issuing \<open>k\<close> numbers one after the other for the same year; the first error stops.\<close>

fun issue_many :: "nat \<Rightarrow> int \<Rightarrow> correlativos \<Rightarrow> error + (int list \<times> correlativos)" where
  "issue_many 0 anio tbl = Inr ([], tbl)"
| "issue_many (Suc k) anio tbl =
     (case get_next_correlativo anio tbl of
        Inl e \<Rightarrow> Inl e
      | Inr (n, tbl') \<Rightarrow>
          (case issue_many k anio tbl' of
             Inl e \<Rightarrow> Inl e
           | Inr (ns, tbl'') \<Rightarrow> Inr (n # ns, tbl'')))"

text \<open>The last number issued for a year, 0 when the year has no row yet.\<close>

definition last_issued :: "correlativos \<Rightarrow> int \<Rightarrow> int" where
  "last_issued tbl anio = (case tbl anio of None \<Rightarrow> 0 | Some n \<Rightarrow> n)"

section \<open>Python strings\<close>

text \<open>
  Strings are lists of ASCII characters. \<open>strip\<close> removes the white space of
  \<open>str.strip()\<close> at both ends, \<open>upper\<close> is \<open>str.upper()\<close> and \<open>is_digit\<close> is
  \<open>str.isdigit()\<close> on one character, all three restricted to ASCII.
\<close>

definition is_space :: "char \<Rightarrow> bool" where
  "is_space c = (c \<in> set [CHR 0x09, CHR 0x0A, CHR 0x0B, CHR 0x0C, CHR 0x0D,
                           CHR 0x1C, CHR 0x1D, CHR 0x1E, CHR 0x1F, CHR 0x20])"

definition is_digit :: "char \<Rightarrow> bool" where
  "is_digit c = (c \<in> set ''0123456789'')"

definition strip :: "string \<Rightarrow> string" where
  "strip x = rev (dropWhile is_space (rev (dropWhile is_space x)))"

definition upper_char :: "char \<Rightarrow> char" where
  "upper_char c =
     (case map_of (zip ''abcdefghijklmnopqrstuvwxyz'' ''ABCDEFGHIJKLMNOPQRSTUVWXYZ'') c of
        None \<Rightarrow> c | Some u \<Rightarrow> u)"

definition upper :: "string \<Rightarrow> string" where
  "upper x = map upper_char x"

section \<open>The table \<open>permisos\<close>\<close>

text \<open>
  A value bound to or read from SQLite: NULL (Python \<open>None\<close>), an integer (also a Python
  \<open>bool\<close>) or a text. A row maps every column name to its value; the table is the list of
  its rows in insertion order. Values are stored as they are bound: the column affinities
  of SQLite are not modelled.
\<close>

datatype cell = Null | IntV int | TextV string

type_synonym row = "string \<Rightarrow> cell"

type_synonym permisos = "row list"

text \<open>A Python dict with string keys, such as the \<open>data\<close> argument of the store functions.\<close>

type_synonym pydict = "string \<rightharpoonup> cell"

text \<open>\<open>fetch_permiso_by_id\<close>: the first row with the id, as a dict of all its columns.\<close>

definition fetch_permiso_by_id :: "int \<Rightarrow> permisos \<Rightarrow> row option" where
  "fetch_permiso_by_id pid db = find (\<lambda>r. r ''id'' = IntV pid) db"

text \<open>The column list of \<open>update_permiso\<close>, in the order and with the repetitions of the source.\<close>

definition update_fields :: "string list" where
  "update_fields =
    [''ciudad'', ''notario'',
     ''padre_nombre'', ''padre_dni'', ''padre_estado_civil'', ''padre_direccion'',
     ''padre_distrito'', ''padre_provincia'', ''padre_departamento'',
     ''madre_nombre'', ''madre_dni'', ''madre_estado_civil'', ''madre_direccion'',
     ''madre_distrito'', ''madre_provincia'', ''madre_departamento'',
     ''menor_nombre'', ''menor_dni'', ''menor_fnac'', ''sexo_menor'',
     ''tipo_viaje'', ''firma_quien'', ''origen'', ''destino'', ''vias'', ''empresa'',
     ''salida'', ''retorno'',
     ''acompanante'', ''tercero_nombre'', ''tercero_dni'',
     ''rol_acompanante'', ''acomp1_nombre'', ''acomp1_dni'', ''acomp_count'',
     ''motivo'', ''ciudad_evento'', ''fecha_evento'', ''organizador'',
     ''recibe_si'', ''rec_nombre'', ''rec_doc_tipo'', ''rec_doc_num'', ''rec_doc_pais'',
     ''archivo_generado'', ''estado'', ''version'',
     ''anulado_at'', ''anulado_motivo'', ''anulado_por'',
     ''padre_doc_tipo'', ''padre_doc_num'', ''padre_nacionalidad'',
     ''madre_doc_tipo'', ''madre_doc_num'', ''madre_nacionalidad'',
     ''menor_doc_tipo'', ''menor_doc_num'', ''menor_nacionalidad'',
     ''viaja_solo'', ''recibe_si'', ''rec_nombre'', ''rec_doc_tipo'', ''rec_doc_num'',
     ''rec_doc_pais'', ''rec_list_json'',
     ''hermanos_json'',
     ''terceros_json'']"

text \<open>\<open>data.get(f, "")\<close>.\<close>

definition data_get :: "pydict \<Rightarrow> string \<Rightarrow> cell" where
  "data_get data f = (case data f of None \<Rightarrow> TextV [] | Some v \<Rightarrow> v)"

text \<open>The SET clause \<open>f1=?, f2=?, ...\<close> with the values \<open>[data.get(f, "") for f in fields]\<close>.\<close>

definition set_fields :: "string list \<Rightarrow> pydict \<Rightarrow> row \<Rightarrow> row" where
  "set_fields fields data r = foldl (\<lambda>r' f. r'(f := data_get data f)) r fields"

text \<open>
  \<open>update_permiso\<close>: \<open>UPDATE permisos SET ..., updated_at=? WHERE id = ?\<close>; \<open>now\<close> is the
  time stamp read from the clock.
\<close>

definition update_permiso :: "int \<Rightarrow> pydict \<Rightarrow> string \<Rightarrow> permisos \<Rightarrow> permisos" where
  "update_permiso pid data now db =
     map (\<lambda>r. if r ''id'' = IntV pid
              then (set_fields update_fields data r)(''updated_at'' := TextV now)
              else r) db"

text \<open>\<open>str(x)\<close> of a value read from the table: the text itself, a numeral, or \<open>None\<close>.\<close>

definition digit_char :: "nat \<Rightarrow> char" where
  "digit_char d = ''0123456789'' ! d"

function dec_nat :: "nat \<Rightarrow> string" where
  "dec_nat n = (if n < 10 then [digit_char n] else dec_nat (n div 10) @ [digit_char (n mod 10)])"
  by pat_completeness auto
termination
  by (relation "measure id") auto

definition py_str :: "cell \<Rightarrow> string" where
  "py_str c =
     (case c of
        Null \<Rightarrow> ''None''
      | TextV t \<Rightarrow> t
      | IntV i \<Rightarrow> (if i < 0 then CHR ''-'' # dec_nat (nat (- i)) else dec_nat (nat i)))"

text \<open>The test \<open>str(perm.get("estado", ...)).upper() == "ANULADO"\<close> of the row read.\<close>

definition is_anulado :: "row \<Rightarrow> bool" where
  "is_anulado perm = (upper (py_str (perm ''estado'')) = ''ANULADO'')"

text \<open>The column list of \<open>save_permiso_registro\<close>, as in the source.\<close>

definition insert_cols :: "string list" where
  "insert_cols =
    [''anio'', ''numero'', ''nsc'', ''fecha_registro'',
     ''ciudad'', ''notario'',
     ''padre_nombre'', ''padre_dni'', ''padre_estado_civil'', ''padre_direccion'',
     ''padre_distrito'', ''padre_provincia'', ''padre_departamento'',
     ''madre_nombre'', ''madre_dni'', ''madre_estado_civil'', ''madre_direccion'',
     ''madre_distrito'', ''madre_provincia'', ''madre_departamento'',
     ''menor_nombre'', ''menor_dni'', ''menor_fnac'', ''sexo_menor'',
     ''tipo_viaje'', ''firma_quien'', ''origen'', ''destino'', ''vias'', ''empresa'',
     ''salida'', ''retorno'',
     ''acompanante'', ''tercero_nombre'', ''tercero_dni'',
     ''rol_acompanante'', ''acomp1_nombre'', ''acomp1_dni'', ''acomp_count'',
     ''viaja_solo'', ''recibe_si'', ''rec_nombre'', ''rec_doc_tipo'', ''rec_doc_num'',
     ''rec_doc_pais'', ''rec_list_json'',
     ''motivo'', ''ciudad_evento'', ''fecha_evento'', ''organizador'',
     ''hermanos_json'', ''terceros_json'',
     ''recibe_si'', ''rec_nombre'', ''rec_doc_tipo'', ''rec_doc_num'', ''rec_doc_pais'',
     ''archivo_generado'', ''estado'', ''updated_at'', ''version'',
     ''anulado_at'', ''anulado_motivo'', ''anulado_por'',
     ''padre_doc_tipo'', ''padre_doc_num'', ''padre_nacionalidad'',
     ''madre_doc_tipo'', ''madre_doc_num'', ''madre_nacionalidad'',
     ''menor_doc_tipo'', ''menor_doc_num'', ''menor_nacionalidad'']"

definition insert_defaults :: "string \<Rightarrow> pydict" where
  "insert_defaults now =
     [''nsc'' \<mapsto> TextV ''NSC'', ''fecha_registro'' \<mapsto> TextV now,
      ''estado'' \<mapsto> TextV ''EMITIDO'', ''updated_at'' \<mapsto> TextV now,
      ''version'' \<mapsto> IntV 1,
      ''anulado_at'' \<mapsto> TextV [], ''anulado_motivo'' \<mapsto> TextV [],
      ''anulado_por'' \<mapsto> TextV []]"

text \<open>\<open>data.get(k, defaults.get(k, ""))\<close>.\<close>

definition insert_value :: "pydict \<Rightarrow> string \<Rightarrow> string \<Rightarrow> cell" where
  "insert_value data now k =
     (case data k of
        Some v \<Rightarrow> v
      | None \<Rightarrow> (case insert_defaults now k of Some d \<Rightarrow> d | None \<Rightarrow> TextV []))"

text \<open>
  \<open>id INTEGER PRIMARY KEY AUTOINCREMENT\<close>: one more than the largest id of the table, from
  which no row is ever deleted.
\<close>

definition next_id :: "permisos \<Rightarrow> int" where
  "next_id db = fold (\<lambda>r m. case r ''id'' of IntV i \<Rightarrow> max i m | _ \<Rightarrow> m) db 0 + 1"

text \<open>
  \<open>save_permiso_registro\<close>: the INSERT of one row. The columns that the statement does not
  name are NULL. The statement fails with \<open>sqlite3.IntegrityError\<close> on a NULL in a
  \<open>NOT NULL\<close> column and on a row that repeats a pair of \<open>UNIQUE(anio, numero)\<close>.
\<close>

definition new_row :: "pydict \<Rightarrow> string \<Rightarrow> permisos \<Rightarrow> row" where
  "new_row data now db =
     foldl (\<lambda>r k. r(k := insert_value data now k))
           ((\<lambda>c. Null)(''id'' := IntV (next_id db))) insert_cols"

definition save_permiso_registro :: "pydict \<Rightarrow> string \<Rightarrow> permisos \<Rightarrow> error + permisos" where
  "save_permiso_registro data now db =
     (let r = new_row data now db in
      if r ''anio'' = Null \<or> r ''numero'' = Null \<or> r ''nsc'' = Null
           \<or> r ''fecha_registro'' = Null then Inl IntegrityError
      else if \<exists>r0 \<in> set db. r0 ''anio'' = r ''anio'' \<and> r0 ''numero'' = r ''numero''
           then Inl IntegrityError
      else Inr (db @ [r]))"

text \<open>
  \<open>anular_permiso\<close>: the result is the flag of the returned pair and the table. The row
  read is copied into the dict given to \<open>update_permiso\<close>, with the four voiding entries
  replaced.
\<close>

definition anular_permiso ::
  "int \<Rightarrow> string \<Rightarrow> string \<Rightarrow> string \<Rightarrow> permisos \<Rightarrow> bool \<times> permisos" where
  "anular_permiso pid motivo usuario now db =
     (case fetch_permiso_by_id pid db of
        None \<Rightarrow> (False, db)
      | Some perm \<Rightarrow>
          if is_anulado perm then (False, db)
          else (True,
                update_permiso pid
                  ((\<lambda>c. Some (perm c))
                     (''estado'' \<mapsto> TextV ''ANULADO'',
                      ''anulado_at'' \<mapsto> TextV now,
                      ''anulado_motivo'' \<mapsto> TextV (upper (strip motivo)),
                      ''anulado_por'' \<mapsto>
                         TextV (upper (if usuario = [] then ''ADMIN'' else usuario))))
                  now db))"

section \<open>Propagation of a corrected document number\<close>

text \<open>\<open>_norm_doc\<close>: the stripped text, or its digits alone when there are at least eight.\<close>

definition norm_doc :: "string \<Rightarrow> string" where
  "norm_doc x =
     (let x' = strip x;
          only_digits = filter is_digit x'
      in if length only_digits \<ge> 8 then only_digits else x')"

text \<open>
  SQL \<open>REPLACE(col, ' ', '')\<close>: NULL for NULL, otherwise the text without its blanks (an
  integer is taken as its numeral).
\<close>

definition sql_replace_spaces :: "cell \<Rightarrow> string option" where
  "sql_replace_spaces c =
     (case c of
        Null \<Rightarrow> None
      | _ \<Rightarrow> Some (filter (\<lambda>ch. ch \<noteq> CHR '' '') (py_str c)))"

text \<open>
  The WHERE clause \<open>REPLACE(c1, ' ', '') = ? OR REPLACE(c2, ' ', '') = ?\<close> with both
  parameters bound to the old document: a comparison with NULL is not true.
\<close>

definition doc_match :: "string \<Rightarrow> string \<Rightarrow> string \<Rightarrow> row \<Rightarrow> bool" where
  "doc_match c1 c2 old r =
     (sql_replace_spaces (r c1) = Some old \<or> sql_replace_spaces (r c2) = Some old)"

text \<open>
  \<open>UPDATE permisos SET c1 = ?, c2 = ?, updated_at = CURRENT_TIMESTAMP WHERE ...\<close>: the new
  table and \<open>cur.rowcount\<close>, the number of rows selected. \<open>ts\<close> is the time stamp of the
  data base.
\<close>

definition update_docs ::
  "string \<Rightarrow> string \<Rightarrow> string \<Rightarrow> string \<Rightarrow> string \<Rightarrow> permisos \<Rightarrow> permisos \<times> int" where
  "update_docs c1 c2 new old ts db =
     (map (\<lambda>r. if doc_match c1 c2 old r
               then r(c1 := TextV new, c2 := TextV new, ''updated_at'' := TextV ts)
               else r) db,
      int (length (filter (doc_match c1 c2 old) db)))"

text \<open>\<open>propagar_cambio_doc\<close>: every role other than PADRE and MADRE takes the last branch.\<close>

definition propagar_cambio_doc ::
  "string \<Rightarrow> string \<Rightarrow> string \<Rightarrow> string \<Rightarrow> permisos \<Rightarrow> permisos \<times> int" where
  "propagar_cambio_doc rol old_doc new_doc ts db =
     (let rol' = upper rol;
          old_n = norm_doc old_doc;
          new_n = norm_doc new_doc
      in if old_n = [] \<or> new_n = [] \<or> old_n = new_n then (db, 0)
         else if rol' = ''PADRE'' then update_docs ''padre_doc_num'' ''padre_dni'' new_n old_n ts db
         else if rol' = ''MADRE'' then update_docs ''madre_doc_num'' ''madre_dni'' new_n old_n ts db
         else update_docs ''menor_doc_num'' ''menor_dni'' new_n old_n ts db)"

subsection \<open>The sibling list inside \<open>hermanos_json\<close>\<close>

text \<open>
  A decoded JSON document (numbers are integers). \<open>json.loads\<close> and \<open>json.dumps\<close> belong
  to the Python library, not to the repository: the functions below take them as the
  parameters \<open>loads\<close> (\<open>None\<close> when it raises) and \<open>dumps\<close>.
\<close>

datatype json = JNull | JBool bool | JInt int | JStr string | JArr "json list"
  | JObj "(string \<times> json) list"

text \<open>The truth value of \<open>d.get(k)\<close>: a missing key gives \<open>None\<close>.\<close>

definition truthy :: "json option \<Rightarrow> bool" where
  "truthy v =
     (case v of
        None \<Rightarrow> False
      | Some JNull \<Rightarrow> False
      | Some (JBool b) \<Rightarrow> b
      | Some (JInt i) \<Rightarrow> i \<noteq> 0
      | Some (JStr t) \<Rightarrow> t \<noteq> []
      | Some (JArr xs) \<Rightarrow> xs \<noteq> []
      | Some (JObj kvs) \<Rightarrow> kvs \<noteq> [])"

text \<open>
  \<open>(h.get("doc_num") or h.get("dni") or "").strip()\<close>: only a dict has \<open>get\<close> and only a
  text has \<open>strip\<close>; anything else raises \<open>AttributeError\<close>.
\<close>

definition hermano_doc :: "json \<Rightarrow> error + string" where
  "hermano_doc h =
     (case h of
        JObj kvs \<Rightarrow>
          (let a = map_of kvs ''doc_num'';
               b = map_of kvs ''dni'';
               v = (if truthy a then a else if truthy b then b else Some (JStr []))
           in case v of Some (JStr t) \<Rightarrow> Inr (strip t) | _ \<Rightarrow> Inl AttributeError)
      | _ \<Rightarrow> Inl AttributeError)"

text \<open>\<open>h[k] = v\<close> on a dict: the entry is replaced in place or added at the end.\<close>

fun dict_set :: "string \<Rightarrow> json \<Rightarrow> (string \<times> json) list \<Rightarrow> (string \<times> json) list" where
  "dict_set k v [] = [(k, v)]"
| "dict_set k v ((k', v') # kvs) =
     (if k' = k then (k, v) # kvs else (k', v') # dict_set k v kvs)"

definition set_doc_num :: "string \<Rightarrow> json \<Rightarrow> json" where
  "set_doc_num new_n h =
     (case h of JObj kvs \<Rightarrow> JObj (dict_set ''doc_num'' (JStr new_n) kvs) | _ \<Rightarrow> h)"

text \<open>
  The inner loop \<open>for h in arr\<close>: the patched list and the flag \<open>changed\<close>, or the
  exception of the first sibling that raises.
\<close>

fun patch_hermanos :: "string \<Rightarrow> string \<Rightarrow> json list \<Rightarrow> error + (json list \<times> bool)" where
  "patch_hermanos old_n new_n [] = Inr ([], False)"
| "patch_hermanos old_n new_n (h # hs) =
     (case hermano_doc h of
        Inl e \<Rightarrow> Inl e
      | Inr doc \<Rightarrow>
          (case patch_hermanos old_n new_n hs of
             Inl e \<Rightarrow> Inl e
           | Inr (hs', changed) \<Rightarrow>
               if norm_doc doc = old_n then Inr (set_doc_num new_n h # hs', True)
               else Inr (h # hs', changed)))"

text \<open>
  The outer loop of \<open>_update_hermano_doc_json\<close> over the rows selected beforehand (their
  \<open>id\<close> and \<open>hermanos_json\<close>). A text that does not decode, or not to a list, is skipped.
  Each \<open>UPDATE ... WHERE id=?\<close> takes effect at once (the connection is in autocommit
  mode), so an exception leaves the earlier updates in the table.
\<close>

fun hermanos_loop ::
  "(string \<Rightarrow> json option) \<Rightarrow> (json \<Rightarrow> string) \<Rightarrow> string \<Rightarrow> string \<Rightarrow> string \<Rightarrow>
   (cell \<times> cell) list \<Rightarrow> permisos \<Rightarrow> int \<Rightarrow> permisos \<times> (error + int)" where
  "hermanos_loop loads dumps old_n new_n ts [] db afectados = (db, Inr afectados)"
| "hermanos_loop loads dumps old_n new_n ts ((pid, hjson) # rows) db afectados =
     (case (case hjson of TextV t \<Rightarrow> loads t | _ \<Rightarrow> None) of
        Some (JArr arr) \<Rightarrow>
          (case patch_hermanos old_n new_n arr of
             Inl e \<Rightarrow> (db, Inl e)
           | Inr (arr', changed) \<Rightarrow>
               if changed then
                 (case pid of
                    IntV i \<Rightarrow>
                      hermanos_loop loads dumps old_n new_n ts rows
                        (map (\<lambda>r. if r ''id'' = IntV i
                                  then r(''hermanos_json'' := TextV (dumps (JArr arr')),
                                         ''updated_at'' := TextV ts)
                                  else r) db)
                        (afectados + 1)
                  | _ \<Rightarrow> (db, Inl TypeError))
               else hermanos_loop loads dumps old_n new_n ts rows db afectados)
      | _ \<Rightarrow> hermanos_loop loads dumps old_n new_n ts rows db afectados)"

text \<open>\<open>SELECT id, hermanos_json FROM permisos WHERE COALESCE(hermanos_json,'') <> ''\<close>.\<close>

definition select_hermanos :: "permisos \<Rightarrow> (cell \<times> cell) list" where
  "select_hermanos db =
     map (\<lambda>r. (r ''id'', r ''hermanos_json''))
         (filter (\<lambda>r. r ''hermanos_json'' \<noteq> Null \<and> r ''hermanos_json'' \<noteq> TextV []) db)"

definition update_hermano_doc_json ::
  "(string \<Rightarrow> json option) \<Rightarrow> (json \<Rightarrow> string) \<Rightarrow> string \<Rightarrow> string \<Rightarrow> string \<Rightarrow>
   permisos \<Rightarrow> permisos \<times> (error + int)" where
  "update_hermano_doc_json loads dumps old_doc new_doc ts db =
     (let old_n = norm_doc old_doc;
          new_n = norm_doc new_doc
      in if old_n = [] \<or> new_n = [] \<or> old_n = new_n then (db, Inr 0)
         else hermanos_loop loads dumps old_n new_n ts (select_hermanos db) db 0)"

subsection \<open>Hidden documents (table \<open>doc_ocultos\<close>)\<close>

record oculto =
  rol :: string
  doc_num :: string
  motivo :: string
  creado_por :: string
  creado_at :: string

type_synonym doc_ocultos = "oculto list"

definition is_doc_oculto :: "string \<Rightarrow> string \<Rightarrow> doc_ocultos \<Rightarrow> bool" where
  "is_doc_oculto r d tbl =
     (let r' = upper r; doc = upper (strip d)
      in if r' = [] \<or> doc = [] then False
         else \<exists>m \<in> set tbl. rol m = r' \<and> doc_num m = doc)"

text \<open>
  \<open>ocultar_doc\<close>: \<open>INSERT OR IGNORE\<close> under the unique index on \<open>(rol, doc_num)\<close>; the
  result is the flag of the returned pair and the table.
\<close>

definition ocultar_doc ::
  "string \<Rightarrow> string \<Rightarrow> string \<Rightarrow> string \<Rightarrow> string \<Rightarrow> doc_ocultos \<Rightarrow> bool \<times> doc_ocultos" where
  "ocultar_doc r d mot por ts tbl =
     (let r' = upper r; doc = upper (strip d)
      in if r' = [] \<or> doc = [] then (False, tbl)
         else if \<exists>m \<in> set tbl. rol m = r' \<and> doc_num m = doc then (True, tbl)
         else (True,
               tbl @ [\<lparr>rol = r', doc_num = doc, motivo = upper (strip mot),
                        creado_por = upper (if por = [] then ''USUARIO'' else por),
                        creado_at = ts\<rparr>]))"

definition mostrar_doc :: "string \<Rightarrow> string \<Rightarrow> doc_ocultos \<Rightarrow> bool \<times> doc_ocultos" where
  "mostrar_doc r d tbl =
     (let r' = upper r; doc = upper (strip d)
      in if r' = [] \<or> doc = [] then (False, tbl)
         else (True, filter (\<lambda>m. \<not> (rol m = r' \<and> doc_num m = doc)) tbl))"

subsection \<open>\<open>admin_actualizar_doc\<close>\<close>

text \<open>
  SQL \<open>REPLACE(COALESCE(col, ''), ' ', '')\<close> and the WHERE clause of the three UPDATE
  statements of \<open>admin_actualizar_doc\<close>.
\<close>

definition sql_coalesce_empty :: "cell \<Rightarrow> cell" where
  "sql_coalesce_empty c = (case c of Null \<Rightarrow> TextV [] | _ \<Rightarrow> c)"

definition admin_match :: "string \<Rightarrow> string \<Rightarrow> string \<Rightarrow> row \<Rightarrow> bool" where
  "admin_match c1 c2 old r =
     (sql_replace_spaces (sql_coalesce_empty (r c1)) = Some old
      \<or> sql_replace_spaces (sql_coalesce_empty (r c2)) = Some old)"

definition admin_update_docs ::
  "string \<Rightarrow> string \<Rightarrow> string \<Rightarrow> string \<Rightarrow> string \<Rightarrow> permisos \<Rightarrow> permisos \<times> int" where
  "admin_update_docs c1 c2 new old ts db =
     (map (\<lambda>r. if admin_match c1 c2 old r
               then r(c1 := TextV new, c2 := TextV new, ''updated_at'' := TextV ts)
               else r) db,
      int (length (filter (admin_match c1 c2 old) db)))"

text \<open>
  The block \<open>if mover_oculto\<close>: when the old document is hidden it is shown again and the
  new one is hidden with the reason \<open>Migrado desde <old>\<close> and the creator \<open>ADMIN\<close>.
\<close>

definition mover_oculto_block :: "string \<Rightarrow> string \<Rightarrow> string \<Rightarrow> string \<Rightarrow> doc_ocultos \<Rightarrow> doc_ocultos" where
  "mover_oculto_block r old_n new_n ts oc =
     (if is_doc_oculto r old_n oc
      then snd (ocultar_doc r new_n (''Migrado desde '' @ old_n) ''ADMIN'' ts
                  (snd (mostrar_doc r old_n oc)))
      else oc)"

text \<open>
  \<open>admin_actualizar_doc\<close> (the statements after its \<open>return\<close> are never run). The result
  is the flag and the row count of the returned triple, and both tables. An exception of
  the sibling branch is caught by the outer handler, which returns before the block.
\<close>

definition admin_actualizar_doc ::
  "(string \<Rightarrow> json option) \<Rightarrow> (json \<Rightarrow> string) \<Rightarrow> string \<Rightarrow> string \<Rightarrow> string \<Rightarrow> bool \<Rightarrow>
   string \<Rightarrow> permisos \<times> doc_ocultos \<Rightarrow> (bool \<times> int) \<times> permisos \<times> doc_ocultos" where
  "admin_actualizar_doc loads dumps r old_doc new_doc mover_oculto ts st =
     (let db = fst st; oc = snd st;
          r' = upper r;
          old_n = norm_doc old_doc;
          new_n = norm_doc new_doc
      in if r' \<notin> set [''PADRE'', ''MADRE'', ''MENOR'', ''HERMANO''] then ((False, 0), db, oc)
         else if old_n = [] \<or> new_n = [] then ((False, 0), db, oc)
         else if old_n = new_n then ((False, 0), db, oc)
         else
           (let res =
                  (if r' = ''PADRE'' then
                     map_prod id Inr (admin_update_docs ''padre_doc_num'' ''padre_dni'' new_n old_n ts db)
                   else if r' = ''MADRE'' then
                     map_prod id Inr (admin_update_docs ''madre_doc_num'' ''madre_dni'' new_n old_n ts db)
                   else if r' = ''MENOR'' then
                     map_prod id Inr (admin_update_docs ''menor_doc_num'' ''menor_dni'' new_n old_n ts db)
                   else update_hermano_doc_json loads dumps old_n new_n ts db)
            in case snd res of
                 Inl e \<Rightarrow> ((False, 0), fst res, oc)
               | Inr filas \<Rightarrow>
                   ((True, filas), fst res,
                    if mover_oculto then mover_oculto_block r' old_n new_n ts oc else oc)))"

section \<open>The handlers of the page \<open>Editar / Re-generar\<close>\<close>

text \<open>
  What a handler shows instead of writing: the permit was not found, it is voided
  (\<open>ANULADO\<close>), a submission is already running, the form is not valid, or an exception
  was raised.
\<close>

datatype aviso = NoEncontrado | PermisoAnulado | YaEnviando | NoValido | Excepcion error

definition cell_truthy :: "cell \<Rightarrow> bool" where
  "cell_truthy c = (case c of Null \<Rightarrow> False | IntV i \<Rightarrow> i \<noteq> 0 | TextV t \<Rightarrow> t \<noteq> [])"

text \<open>\<open>s(a or b)\<close> with \<open>s(x) = (x or "").strip()\<close>: an integer other than 0 has no \<open>strip\<close>.\<close>

definition s_or :: "cell \<Rightarrow> cell \<Rightarrow> error + string" where
  "s_or a b =
     (let v = (if cell_truthy a then a else b)
      in if \<not> cell_truthy v then Inr []
         else (case v of TextV t \<Rightarrow> Inr (strip t) | _ \<Rightarrow> Inl AttributeError))"

text \<open>\<open>d.get(k)\<close>: \<open>None\<close> for a missing key.\<close>

definition dict_get :: "pydict \<Rightarrow> string \<Rightarrow> cell" where
  "dict_get d k = (case d k of None \<Rightarrow> Null | Some v \<Rightarrow> v)"

text \<open>One of the three conditional calls of \<open>propagar_cambio_doc\<close>, adding to the total.\<close>

definition propagar_si_cambia ::
  "string \<Rightarrow> string \<Rightarrow> string \<Rightarrow> string \<Rightarrow> permisos \<times> int \<Rightarrow> permisos \<times> int" where
  "propagar_si_cambia r old_d new_d ts st =
     (if old_d \<noteq> [] \<and> new_d \<noteq> [] \<and> old_d \<noteq> new_d
      then (let res = propagar_cambio_doc r old_d new_d ts (fst st)
            in (fst res, snd st + snd res))
      else st)"

text \<open>
  The handler of the button \<open>Guardar cambios\<close>. \<open>form\<close> holds the entries of \<open>data_upd\<close>
  computed from the widgets (all but the META block, which is taken from the row read);
  \<open>enviando\<close> is the session flag, \<open>valido\<close> the result of the validation and
  \<open>propagar_docs\<close> the check box. The result is the table and either the notice shown or
  the number of permits reached by the propagation.
\<close>

definition guardar_cambios ::
  "int \<Rightarrow> pydict \<Rightarrow> bool \<Rightarrow> bool \<Rightarrow> bool \<Rightarrow> string \<Rightarrow> string \<Rightarrow> permisos \<Rightarrow>
   permisos \<times> (aviso + int)" where
  "guardar_cambios pid form enviando valido propagar_docs now ts db =
     (case fetch_permiso_by_id pid db of
        None \<Rightarrow> (db, Inl NoEncontrado)
      | Some perm \<Rightarrow>
          if is_anulado perm then (db, Inl PermisoAnulado)
          else if enviando then (db, Inl YaEnviando)
          else if \<not> valido then (db, Inl NoValido)
          else
            (case (s_or (perm ''padre_doc_num'') (perm ''padre_dni''),
                   s_or (perm ''madre_doc_num'') (perm ''madre_dni''),
                   s_or (perm ''menor_doc_num'') (perm ''menor_dni'')) of
               (Inr old_padre, Inr old_madre, Inr old_menor) \<Rightarrow>
                 (let data_upd = form
                        (''archivo_generado'' \<mapsto> perm ''archivo_generado'',
                         ''estado'' \<mapsto>
                            TextV (if is_anulado perm then ''ANULADO'' else ''CORREGIDO''),
                         ''version'' \<mapsto> perm ''version'',
                         ''anulado_at'' \<mapsto> perm ''anulado_at'',
                         ''anulado_motivo'' \<mapsto> perm ''anulado_motivo'',
                         ''anulado_por'' \<mapsto> perm ''anulado_por'');
                      db1 = update_permiso pid data_upd now db
                  in case (s_or (dict_get form ''padre_doc_num'') (dict_get form ''padre_dni''),
                           s_or (dict_get form ''madre_doc_num'') (dict_get form ''madre_dni''),
                           s_or (dict_get form ''menor_doc_num'') (dict_get form ''menor_dni'')) of
                       (Inr new_padre, Inr new_madre, Inr new_menor) \<Rightarrow>
                         if propagar_docs then
                           map_prod id Inr
                             (propagar_si_cambia ''MENOR'' old_menor new_menor ts
                               (propagar_si_cambia ''MADRE'' old_madre new_madre ts
                                 (propagar_si_cambia ''PADRE'' old_padre new_padre ts (db1, 0))))
                         else (db1, Inr 0)
                     | _ \<Rightarrow> (db1, Inl (Excepcion AttributeError)))
             | _ \<Rightarrow> (db, Inl (Excepcion AttributeError))))"

text \<open>The keys of the row copy that the regeneration handler overwrites from the form.\<close>

definition regen_keys :: "string list" where
  "regen_keys =
    [''acompanante'', ''rol_acompanante'', ''acomp1_nombre'', ''acomp1_dni'', ''acomp_count'',
     ''viaja_solo'', ''recibe_si'', ''rec_nombre'', ''rec_doc_tipo'', ''rec_doc_num'',
     ''rec_doc_pais'', ''vias'', ''empresa'', ''destino'',
     ''padre_doc_tipo'', ''padre_doc_num'', ''madre_doc_tipo'', ''madre_doc_num'']"

text \<open>
  The handler of the button \<open>Re-generar DOCX (nueva version)\<close>. The row is read again
  and its copy gets the version plus one (\<open>TypeError\<close> when the version is not an
  integer), the values of the form under \<open>regen_keys\<close>, the path of the new file and the
  state \<open>CORREGIDO\<close>. \<open>archivo\<close> is the path returned by \<open>regenerate_docx_for_permiso\<close>,
  \<open>None\<close> when the rendering raises: then nothing is written. The key \<open>hermanos\<close> of the
  copy is not a column and is left out.
\<close>

definition regenerar ::
  "int \<Rightarrow> pydict \<Rightarrow> string option \<Rightarrow> string \<Rightarrow> permisos \<Rightarrow> permisos \<times> (aviso + string)" where
  "regenerar pid form archivo now db =
     (case fetch_permiso_by_id pid db of
        None \<Rightarrow> (db, Inl NoEncontrado)
      | Some perm \<Rightarrow>
          if is_anulado perm then (db, Inl PermisoAnulado)
          else
            (case perm ''version'' of
               IntV v \<Rightarrow>
                 (let perm_act = ((\<lambda>c. Some (perm c))(''version'' \<mapsto> IntV (v + 1)))
                                   ++ (form |` set regen_keys)
                  in case archivo of
                       None \<Rightarrow> (db, Inl (Excepcion RuntimeError))
                     | Some path \<Rightarrow>
                         (update_permiso pid
                            (perm_act(''archivo_generado'' \<mapsto> TextV path,
                                      ''estado'' \<mapsto> TextV ''CORREGIDO''))
                            now db,
                          Inr path))
             | _ \<Rightarrow> (db, Inl (Excepcion TypeError))))"

section \<open>The legal identity of a row\<close>

text \<open>The surrogate id of a row together with its correlative \<open>(anio, numero)\<close>.\<close>

definition identity_cols :: "row \<Rightarrow> cell \<times> cell \<times> cell" where
  "identity_cols r = (r ''id'', r ''anio'', r ''numero'')"

definition correlativo_of :: "row \<Rightarrow> cell \<times> cell" where
  "correlativo_of r = (r ''anio'', r ''numero'')"

section \<open>Example data\<close>

text \<open>
  Permit 1 of 2025 as issued, the same permit once voided, and the values of an edit form
  that changes the address of the father.
\<close>

definition permiso_emitido :: row where
  "permiso_emitido =
     (\<lambda>c. Null)(''id'' := IntV 1, ''anio'' := IntV 2025, ''numero'' := IntV 1,
                  ''estado'' := TextV ''EMITIDO'', ''version'' := IntV 1,
                  ''menor_nombre'' := TextV ''ANA'',
                  ''padre_doc_num'' := TextV ''12345678'',
                  ''padre_dni'' := TextV ''12345678'')"

definition permiso_anulado :: row where
  "permiso_anulado =
     permiso_emitido(''estado'' := TextV ''ANULADO'', ''anulado_motivo'' := TextV ''ERROR'',
                     ''anulado_por'' := TextV ''ADMIN'')"

definition form_edicion :: pydict where
  "form_edicion =
     [''menor_nombre'' \<mapsto> TextV ''ANA'',
      ''padre_doc_num'' \<mapsto> TextV ''12345678'',
      ''padre_dni'' \<mapsto> TextV ''12345678'',
      ''padre_direccion'' \<mapsto> TextV ''AV. SOL 123'']"

section \<open>Correlative issuance: proofs\<close>

lemma get_next_correlativo_valid:
  assumes "2000 \<le> anio" "anio \<le> 2100"
  shows "get_next_correlativo anio tbl =
           Inr (last_issued tbl anio + 1, tbl(anio \<mapsto> last_issued tbl anio + 1))"
  using assms by (simp add: get_next_correlativo_def last_issued_def split: option.split)

lemma issue_many_from:
  assumes "2000 \<le> anio" "anio \<le> 2100"
  shows "issue_many k anio tbl =
           Inr (map (\<lambda>i. last_issued tbl anio + 1 + int i) [0..<k],
                if k = 0 then tbl else tbl(anio \<mapsto> last_issued tbl anio + int k))"
proof (induction k arbitrary: tbl)
  case 0
  show ?case by simp
next
  case (Suc k)
  let ?t = "tbl(anio \<mapsto> last_issued tbl anio + 1)"
  have l: "last_issued ?t anio = last_issued tbl anio + 1"
    by (simp add: last_issued_def)
  have m: "map (\<lambda>i. last_issued tbl anio + 1 + int i) [0..<Suc k] =
           (last_issued tbl anio + 1) # map (\<lambda>i. last_issued tbl anio + 1 + 1 + int i) [0..<k]"
    by (simp add: upt_rec [of 0 "Suc k"] map_Suc_upt [symmetric] del: upt_Suc)
  have u: "?t(anio \<mapsto> last_issued tbl anio + 1 + int k) =
           tbl(anio \<mapsto> last_issued tbl anio + int (Suc k))"
    by (simp add: fun_eq_iff)
  have "issue_many (Suc k) anio tbl =
          (case issue_many k anio ?t of
             Inl e \<Rightarrow> Inl e
           | Inr (ns, tbl'') \<Rightarrow> Inr ((last_issued tbl anio + 1) # ns, tbl''))"
    by (simp add: get_next_correlativo_valid [OF assms])
  also have "\<dots> = Inr ((last_issued tbl anio + 1) #
                       map (\<lambda>i. last_issued tbl anio + 1 + 1 + int i) [0..<k],
                     if k = 0 then ?t else ?t(anio \<mapsto> last_issued tbl anio + 1 + int k))"
    unfolding Suc.IH l by (simp only: sum.case prod.case add.assoc)
  also have "\<dots> = Inr (map (\<lambda>i. last_issued tbl anio + 1 + int i) [0..<Suc k],
                     tbl(anio \<mapsto> last_issued tbl anio + int (Suc k)))"
    unfolding m u by (cases k) simp_all
  finally show ?case by (simp add: fun_eq_iff)
qed

text \<open>
  Claim C1. For every year in 2000..2100, each call of \<open>get_next_correlativo\<close> returns the
  last issued number of the year plus one (1 when the year has no row, and the row then
  exists), the stored counter of the year grows and the other years are untouched; issuing
  \<open>N\<close> numbers one after the other for a year without a row returns 1, 2, ..., N in this
  order, hence exactly the set {1..N} without duplicates, and leaves the counter at N.
\<close>

theorem correlativo_sequential_gapless:
  assumes "2000 \<le> anio" and "anio \<le> 2100"
  shows "(\<exists>tbl'. get_next_correlativo anio tbl = Inr (last_issued tbl anio + 1, tbl')
           \<and> tbl' anio = Some (last_issued tbl anio + 1)
           \<and> last_issued tbl anio < last_issued tbl' anio
           \<and> (\<forall>y. y \<noteq> anio \<longrightarrow> tbl' y = tbl y))
       \<and> (tbl anio = None \<longrightarrow>
           (\<exists>tbl'. get_next_correlativo anio tbl = Inr (1, tbl') \<and> tbl' anio = Some 1))
       \<and> (tbl anio = None \<longrightarrow>
           (\<exists>ns tbl'. issue_many N anio tbl = Inr (ns, tbl')
             \<and> ns = map int [1..<Suc N] \<and> distinct ns \<and> set ns = {1..int N}
             \<and> last_issued tbl' anio = int N))"
proof (intro conjI impI)
  show "\<exists>tbl'. get_next_correlativo anio tbl = Inr (last_issued tbl anio + 1, tbl')
           \<and> tbl' anio = Some (last_issued tbl anio + 1)
           \<and> last_issued tbl anio < last_issued tbl' anio
           \<and> (\<forall>y. y \<noteq> anio \<longrightarrow> tbl' y = tbl y)"
    by (simp add: get_next_correlativo_valid [OF assms] last_issued_def)
next
  assume "tbl anio = None"
  then show "\<exists>tbl'. get_next_correlativo anio tbl = Inr (1, tbl') \<and> tbl' anio = Some 1"
    using assms by (simp add: get_next_correlativo_def)
next
  assume none: "tbl anio = None"
  then have z: "last_issued tbl anio = 0"
    by (simp add: last_issued_def)
  have m: "map (\<lambda>i. 0 + 1 + int i) [0..<N] = map int [1..<Suc N]"
    by (simp add: map_Suc_upt [symmetric] del: upt_Suc)
  have d: "distinct (map int [1..<Suc N])"
    by (simp add: distinct_map inj_on_def del: upt_Suc)
  have s: "set (map int [1..<Suc N]) = {1..int N}"
  proof (rule set_eqI)
    fix x :: int
    show "x \<in> set (map int [1..<Suc N]) \<longleftrightarrow> x \<in> {1..int N}"
    proof
      assume "x \<in> set (map int [1..<Suc N])"
      then show "x \<in> {1..int N}" by auto
    next
      assume "x \<in> {1..int N}"
      then have "nat x \<in> set [1..<Suc N]" and "int (nat x) = x" by auto
      then show "x \<in> set (map int [1..<Suc N])" by (metis image_eqI set_map)
    qed
  qed
  have l: "last_issued (if N = 0 then tbl else tbl(anio \<mapsto> 0 + int N)) anio = int N"
    using none by (simp add: last_issued_def)
  show "\<exists>ns tbl'. issue_many N anio tbl = Inr (ns, tbl')
           \<and> ns = map int [1..<Suc N] \<and> distinct ns \<and> set ns = {1..int N}
           \<and> last_issued tbl' anio = int N"
    unfolding issue_many_from [OF assms] z m using d s l by blast
qed

theorem correlativo_sequential_gapless_witness:
  "(2000::int) \<le> 2025 \<and> (2025::int) \<le> 2100 \<and> (Map.empty :: correlativos) 2025 = None
   \<and> (\<exists>tbl'. get_next_correlativo 2025 Map.empty = Inr (1, tbl') \<and> tbl' 2025 = Some 1)
   \<and> (\<exists>ns tbl'. issue_many 3 2025 Map.empty = Inr (ns, tbl') \<and> ns = [1, 2, 3])"
proof -
  have a: "(2000::int) \<le> 2025" and b: "(2025::int) \<le> 2100" by simp_all
  have n: "(Map.empty :: correlativos) 2025 = None" by simp
  have u: "map int [1..<Suc 3] = [1, 2, 3]" by (simp add: upt_rec)
  from correlativo_sequential_gapless [OF a b, of Map.empty 3] a b n u
  show ?thesis by auto
qed

section \<open>Store-level edit: proofs\<close>

lemma set_fields_apply:
  "set_fields fs data r c = (if c \<in> set fs then data_get data c else r c)"
  unfolding set_fields_def by (induction fs arbitrary: r rule: rev_induct) auto

lemma updated_at_not_field: "''updated_at'' \<notin> set update_fields"
  by (simp add: update_fields_def)

lemma anio_numero_not_field:
  "''anio'' \<notin> set update_fields" "''numero'' \<notin> set update_fields"
  "''id'' \<notin> set update_fields"
  by (simp_all add: update_fields_def)

text \<open>
  Claim C10. \<open>update_permiso\<close> keeps the number of rows; in every row with the given id each
  column of its fixed list gets the value of the map, the empty text when the map has no
  such key (so an unsupplied column is erased), \<open>updated_at\<close> gets the time stamp, and the
  columns outside the list stay; the rows with another id are not changed.
\<close>

theorem update_permiso_overwrites:
  "length (update_permiso pid data now db) = length db \<and>
   (\<forall>i < length db.
      (db ! i) ''id'' = IntV pid \<longrightarrow>
        (\<forall>f \<in> set update_fields.
            (update_permiso pid data now db ! i) f =
              (case data f of Some v \<Rightarrow> v | None \<Rightarrow> TextV ''''))
        \<and> (update_permiso pid data now db ! i) ''updated_at'' = TextV now
        \<and> (\<forall>c. c \<notin> set update_fields \<and> c \<noteq> ''updated_at'' \<longrightarrow>
               (update_permiso pid data now db ! i) c = (db ! i) c)) \<and>
   (\<forall>i < length db.
      (db ! i) ''id'' \<noteq> IntV pid \<longrightarrow> update_permiso pid data now db ! i = db ! i)"
  using updated_at_not_field
  by (auto simp add: update_permiso_def set_fields_apply data_get_def)

theorem update_permiso_overwrites_witness:
  "(update_permiso 1 [''ciudad'' \<mapsto> TextV ''CUSCO''] ''t1''
      [(\<lambda>c. Null)(''id'' := IntV 1, ''ciudad'' := TextV ''LIMA'',
                     ''notario'' := TextV ''PEREZ'')] ! 0) ''ciudad'' = TextV ''CUSCO''
  \<and> (update_permiso 1 [''ciudad'' \<mapsto> TextV ''CUSCO''] ''t1''
      [(\<lambda>c. Null)(''id'' := IntV 1, ''ciudad'' := TextV ''LIMA'',
                     ''notario'' := TextV ''PEREZ'')] ! 0) ''notario'' = TextV ''''"
proof -
  have a: "''ciudad'' \<in> set update_fields" and b: "''notario'' \<in> set update_fields"
    by (simp_all add: update_fields_def)
  show ?thesis
    using update_permiso_overwrites [of 1 "[''ciudad'' \<mapsto> TextV ''CUSCO'']" "''t1''"
      "[(\<lambda>c. Null)(''id'' := IntV 1, ''ciudad'' := TextV ''LIMA'',
                      ''notario'' := TextV ''PEREZ'')]"] a b
    by auto
qed

section \<open>Version and state of a permit: proofs\<close>

lemma find_map_id:
  assumes "\<And>r. g r ''id'' = r ''id''"
  shows "find (\<lambda>r. r ''id'' = IntV pid) (map g db) = map_option g (find (\<lambda>r. r ''id'' = IntV pid) db)"
  by (induction db) (simp_all add: assms)

lemma fetch_update_permiso:
  "fetch_permiso_by_id pid (update_permiso pid data now db) =
   map_option (\<lambda>r. (set_fields update_fields data r)(''updated_at'' := TextV now))
     (fetch_permiso_by_id pid db)"
proof -
  let ?g = "\<lambda>r. if r ''id'' = IntV pid
              then (set_fields update_fields data r)(''updated_at'' := TextV now) else r"
  have g: "\<And>r. ?g r ''id'' = r ''id''"
    using anio_numero_not_field(3) by (simp add: set_fields_apply)
  have "find (\<lambda>r. r ''id'' = IntV pid) (map ?g db) =
        map_option ?g (find (\<lambda>r. r ''id'' = IntV pid) db)"
    by (rule find_map_id) (rule g)
  moreover have "map_option ?g (find (\<lambda>r. r ''id'' = IntV pid) db) =
     map_option (\<lambda>r. (set_fields update_fields data r)(''updated_at'' := TextV now))
       (find (\<lambda>r. r ''id'' = IntV pid) db)"
  proof (cases "find (\<lambda>r. r ''id'' = IntV pid) db")
    case None
    then show ?thesis by simp
  next
    case (Some a)
    then have "a ''id'' = IntV pid" by (auto simp: find_Some_iff)
    with Some show ?thesis by simp
  qed
  ultimately show ?thesis
    by (simp add: fetch_permiso_by_id_def update_permiso_def)
qed

lemma fetch_update_docs:
  assumes "c1 \<noteq> ''id''" "c2 \<noteq> ''id''"
  shows "fetch_permiso_by_id pid (fst (update_docs c1 c2 new old ts db)) =
         map_option (\<lambda>r. if doc_match c1 c2 old r
               then r(c1 := TextV new, c2 := TextV new, ''updated_at'' := TextV ts)
               else r) (fetch_permiso_by_id pid db)"
  unfolding fetch_permiso_by_id_def update_docs_def fst_conv
  by (rule find_map_id) (use assms in auto)

lemma fetch_propagar_version:
  assumes "fetch_permiso_by_id pid db = Some perm"
  shows "\<exists>perm'. fetch_permiso_by_id pid (fst (propagar_cambio_doc r old_d new_d ts db)) = Some perm'
           \<and> perm' ''version'' = perm ''version''"
  using assms
  by (auto simp add: propagar_cambio_doc_def Let_def fetch_update_docs)

lemma fetch_propagar_si_cambia_version:
  assumes "fetch_permiso_by_id pid (fst st) = Some perm"
  shows "\<exists>perm'. fetch_permiso_by_id pid (fst (propagar_si_cambia r old_d new_d ts st)) = Some perm'
           \<and> perm' ''version'' = perm ''version''"
  using fetch_propagar_version [OF assms] assms
  by (auto simp add: propagar_si_cambia_def Let_def)


lemma version_is_field: "''version'' \<in> set update_fields"
  by (simp add: update_fields_def)

lemma version_not_regen_key: "''version'' \<notin> set regen_keys"
  by (simp add: regen_keys_def)

lemma new_row_apply:
  "new_row data now db c =
     (if c \<in> set insert_cols then insert_value data now c
      else if c = ''id'' then IntV (next_id db) else Null)"
proof -
  have "foldl (\<lambda>r k. r(k := insert_value data now k)) r0 ks c =
          (if c \<in> set ks then insert_value data now c else r0 c)" for r0 ks
    by (induction ks arbitrary: r0 rule: rev_induct) auto
  then show ?thesis by (simp add: new_row_def)
qed

lemma version_at_issuance:
  assumes "data ''version'' = None" and "save_permiso_registro data now db = Inr db'"
  shows "db' = db @ [new_row data now db] \<and> new_row data now db ''version'' = IntV 1"
proof -
  have "''version'' \<in> set insert_cols" by (simp add: insert_cols_def)
  then have "new_row data now db ''version'' = IntV 1"
    using assms(1) by (simp add: new_row_apply insert_value_def insert_defaults_def)
  moreover have "db' = db @ [new_row data now db]"
    using assms(2) by (auto simp add: save_permiso_registro_def Let_def split: if_splits)
  ultimately show ?thesis by simp
qed

lemma version_after_regenerar:
  assumes "fetch_permiso_by_id pid db = Some perm" and "perm ''version'' = IntV v"
    and "\<not> is_anulado perm"
  shows "snd (regenerar pid form (Some path) now db) = Inr path \<and>
         (\<exists>perm'. fetch_permiso_by_id pid (fst (regenerar pid form (Some path) now db)) = Some perm'
            \<and> perm' ''version'' = IntV (v + 1))"
  using assms version_is_field version_not_regen_key
  by (simp add: regenerar_def fetch_update_permiso set_fields_apply data_get_def
      map_add_def restrict_map_def)

lemma version_after_anular:
  assumes "fetch_permiso_by_id pid db = Some perm"
    and "fst (anular_permiso pid mot usuario now db)"
  shows "\<exists>perm'. fetch_permiso_by_id pid (snd (anular_permiso pid mot usuario now db)) = Some perm'
            \<and> perm' ''version'' = perm ''version'' \<and> perm' ''estado'' = TextV ''ANULADO''"
proof -
  have "''estado'' \<in> set update_fields" by (simp add: update_fields_def)
  then show ?thesis
    using assms version_is_field
    by (simp add: anular_permiso_def fetch_update_permiso set_fields_apply data_get_def
        split: if_splits)
qed

lemma version_after_guardar:
  assumes "fetch_permiso_by_id pid db = Some perm"
    and "snd (guardar_cambios pid form enviando valido propagar_docs now ts db) = Inr n"
  shows "\<exists>perm'. fetch_permiso_by_id pid
                   (fst (guardar_cambios pid form enviando valido propagar_docs now ts db)) = Some perm'
            \<and> perm' ''version'' = perm ''version''"
proof -
  let ?data = "form
        (''archivo_generado'' \<mapsto> perm ''archivo_generado'',
         ''estado'' \<mapsto> TextV (if is_anulado perm then ''ANULADO'' else ''CORREGIDO''),
         ''version'' \<mapsto> perm ''version'',
         ''anulado_at'' \<mapsto> perm ''anulado_at'',
         ''anulado_motivo'' \<mapsto> perm ''anulado_motivo'',
         ''anulado_por'' \<mapsto> perm ''anulado_por'')"
  let ?db1 = "update_permiso pid ?data now db"
  let ?perm1 = "(set_fields update_fields ?data perm)(''updated_at'' := TextV now)"
  have f1: "fetch_permiso_by_id pid ?db1 = Some ?perm1"
    using assms(1) by (simp add: fetch_update_permiso)
  have "?perm1 ''version'' = set_fields update_fields ?data perm ''version''"
    by simp
  also have "\<dots> = data_get ?data ''version''"
    by (simp only: set_fields_apply version_is_field if_True)
  also have "\<dots> = perm ''version''"
    by (simp add: data_get_def)
  finally have v1: "?perm1 ''version'' = perm ''version''" .
  have step: "\<exists>p. fetch_permiso_by_id pid (fst (propagar_si_cambia r o' n' ts st)) = Some p
                \<and> p ''version'' = perm ''version''"
    if "\<exists>p. fetch_permiso_by_id pid (fst st) = Some p \<and> p ''version'' = perm ''version''"
    for r o' n' st
    using that fetch_propagar_si_cambia_version by metis
  have base: "\<exists>p. fetch_permiso_by_id pid (fst (?db1, 0::int)) = Some p
                \<and> p ''version'' = perm ''version''"
    unfolding fst_conv using f1 v1 by blast
  have all: "\<exists>p. fetch_permiso_by_id pid
               (fst (propagar_si_cambia r3 o3 n3 ts
                 (propagar_si_cambia r2 o2 n2 ts
                   (propagar_si_cambia r1 o1 n1 ts (?db1, 0))))) = Some p
              \<and> p ''version'' = perm ''version''" for r1 o1 n1 r2 o2 n2 r3 o3 n3
    by (intro step base)
  have db1: "\<exists>p. fetch_permiso_by_id pid ?db1 = Some p \<and> p ''version'' = perm ''version''"
    using f1 v1 by blast
  show ?thesis
    using assms(2) all db1 unfolding guardar_cambios_def assms(1) Let_def option.case
    by (auto simp del: fun_upd_apply split: if_splits sum.splits prod.splits)
qed

section \<open>The handlers on the example data\<close>

lemma fetch_emitido: "fetch_permiso_by_id 1 [permiso_emitido] = Some permiso_emitido"
  by (simp add: fetch_permiso_by_id_def permiso_emitido_def)

lemma fetch_anulado: "fetch_permiso_by_id 1 [permiso_anulado] = Some permiso_anulado"
  by (simp add: fetch_permiso_by_id_def permiso_anulado_def permiso_emitido_def)

lemma upper_EMITIDO: "upper ''EMITIDO'' = ''EMITIDO''"
  by (simp add: upper_def upper_char_def)

lemma upper_ANULADO: "upper ''ANULADO'' = ''ANULADO''"
  by (simp add: upper_def upper_char_def)

lemma emitido_not_anulado: "\<not> is_anulado permiso_emitido"
  by (simp add: is_anulado_def permiso_emitido_def py_str_def upper_EMITIDO)

lemma anulado_is_anulado: "is_anulado permiso_anulado"
  by (simp add: is_anulado_def permiso_anulado_def py_str_def upper_ANULADO)

lemma strip_doc: "strip ''12345678'' = ''12345678''"
  by (simp add: strip_def is_space_def)

lemma guardar_emitido:
  "guardar_cambios 1 form_edicion False True False now ts [permiso_emitido] =
    (update_permiso 1
       (form_edicion
          (''archivo_generado'' \<mapsto> permiso_emitido ''archivo_generado'',
           ''estado'' \<mapsto> TextV ''CORREGIDO'',
           ''version'' \<mapsto> permiso_emitido ''version'',
           ''anulado_at'' \<mapsto> permiso_emitido ''anulado_at'',
           ''anulado_motivo'' \<mapsto> permiso_emitido ''anulado_motivo'',
           ''anulado_por'' \<mapsto> permiso_emitido ''anulado_por''))
       now [permiso_emitido], Inr 0)"
proof -
  have o1: "s_or (permiso_emitido ''padre_doc_num'') (permiso_emitido ''padre_dni'') = Inr ''12345678''"
    by (simp add: s_or_def cell_truthy_def permiso_emitido_def strip_doc)
  have o2: "s_or (permiso_emitido ''madre_doc_num'') (permiso_emitido ''madre_dni'') = Inr []"
    by (simp add: s_or_def cell_truthy_def permiso_emitido_def)
  have o3: "s_or (permiso_emitido ''menor_doc_num'') (permiso_emitido ''menor_dni'') = Inr []"
    by (simp add: s_or_def cell_truthy_def permiso_emitido_def)
  have n1: "s_or (dict_get form_edicion ''padre_doc_num'') (dict_get form_edicion ''padre_dni'') = Inr ''12345678''"
    by (simp add: s_or_def cell_truthy_def form_edicion_def dict_get_def strip_doc)
  have n2: "s_or (dict_get form_edicion ''madre_doc_num'') (dict_get form_edicion ''madre_dni'') = Inr []"
    by (simp add: s_or_def cell_truthy_def form_edicion_def dict_get_def)
  have n3: "s_or (dict_get form_edicion ''menor_doc_num'') (dict_get form_edicion ''menor_dni'') = Inr []"
    by (simp add: s_or_def cell_truthy_def form_edicion_def dict_get_def)
  show ?thesis
    unfolding guardar_cambios_def fetch_emitido option.case o1 o2 o3 n1 n2 n3 Let_def
    using emitido_not_anulado by simp
qed

end
